theory Spec2Isabelle
  imports Complex_Main "HOL-Library.Sublist"
begin

section \<open>The item endpoints of \<open>main.py\<close>\<close>

text \<open>
  The module keeps two module-level lists: \<open>fake_db\<close>, three fixed sample dictionaries read
  by \<open>GET /dbItems/\<close>, and \<open>items\<close>, the list that \<open>POST /items/\<close> appends to and that
  \<open>GET /fullItem/\<close>, \<open>GET /namePrice/\<close> and \<open>GET /minimalItem/\<close> return. Every handler is
  modelled as a function from the module state to its return value and the module state
  after the call.

  Python's \<open>float\<close> is the type parameter \<open>'n\<close>, of which only the addition is used
  (\<open>item.price + item.tax\<close>): every theorem holds for any addition, the rounding one of
  IEEE doubles included. Equality of two numbers is equality of the values; the comparison
  of a NaN with itself is outside this model.
\<close>

subsection \<open>Data\<close>

text \<open>\<open>class Item(BaseModel)\<close>: an optional field is \<open>None\<close> unless the request body sets it.\<close>

record 'n Item =
  name :: string
  description :: "string option"
  price :: 'n
  tax :: "'n option"
  total_price :: "'n option"

text \<open>The values of the sample dictionaries, and a dictionary as its key-value pairs in order.\<close>

datatype dbval = DInt int | DStr string

type_synonym dbrow = "(string \<times> dbval) list"

text \<open>The two module-level lists.\<close>

record 'n module_state =
  fake_db :: "dbrow list"
  items :: "'n Item list"

text \<open>The state after the module is loaded.\<close>

definition init_state :: "'n module_state" where
  "init_state =
     \<lparr>fake_db = [[(''item_id'', DInt 1), (''name'', DStr ''item1'')],
                 [(''item_id'', DInt 2), (''name'', DStr ''item2'')],
                 [(''item_id'', DInt 3), (''name'', DStr ''item3'')]],
      items = []\<rparr>"

subsection \<open>Python's list slice\<close>

text \<open>
  \<open>xs[start:stop]\<close> on a list: a negative index counts from the end, then both indices are
  clamped to \<open>0..len(xs)\<close>; an empty range gives the empty list. No index raises.
\<close>

definition slice_index :: "int \<Rightarrow> int \<Rightarrow> int" where
  "slice_index n i = (if i < 0 then max (i + n) 0 else min i n)"

definition py_slice :: "'a list \<Rightarrow> int \<Rightarrow> int \<Rightarrow> 'a list" where
  "py_slice xs start stop =
     (let n = int (length xs); lo = slice_index n start; hi = slice_index n stop
      in take (nat (hi - lo)) (drop (nat lo) xs))"

subsection \<open>The handlers\<close>

text \<open>
  \<open>GET /dbItems/\<close>, \<open>read_items(start: int = 0, limit: int = 10)\<close>: a query parameter that
  the request leaves out is \<open>None\<close> here and takes its default.
\<close>

definition read_items_dbItems ::
  "int option \<Rightarrow> int option \<Rightarrow> 'n module_state \<Rightarrow> dbrow list \<times> 'n module_state" where
  "read_items_dbItems start_q limit_q s =
     (let start = (case start_q of None \<Rightarrow> 0 | Some a \<Rightarrow> a);
          limit = (case limit_q of None \<Rightarrow> 10 | Some b \<Rightarrow> b)
      in (py_slice (fake_db s) start (start + limit), s))"

text \<open>\<open>POST /items/\<close>, \<open>create_item(item: Item)\<close>.\<close>

definition create_item :: "('n::plus) Item \<Rightarrow> 'n module_state \<Rightarrow> string \<times> 'n module_state" where
  "create_item item s =
     (let item' = (case tax item of
                     Some t \<Rightarrow> item\<lparr>total_price := Some (price item + t)\<rparr>
                   | None \<Rightarrow> item)
      in (''successfully added a new item'', s\<lparr>items := items s @ [item']\<rparr>))"

text \<open>\<open>GET /fullItem/\<close>, the second \<open>read_items()\<close> of the module.\<close>

definition read_items_fullItem :: "'n module_state \<Rightarrow> 'n Item list \<times> 'n module_state" where
  "read_items_fullItem s = (items s, s)"

subsection \<open>Response shaping\<close>

text \<open>
  \<open>GET /namePrice/\<close> and \<open>GET /minimalItem/\<close> both \<open>return items\<close>; what the client sees is
  decided by the arguments of their decorators (\<open>response_model_include\<close>,
  \<open>response_model_exclude\<close>, \<open>response_model_exclude_none\<close>, each under \<open>"__all__"\<close>), which
  the framework applies to every element of the returned list. The framework's serialiser is
  not part of the module, so the next five definitions follow the specification.
\<close>

text \<open>A JSON value of an output record; \<open>JNull\<close> is an unset field.\<close>

datatype 'n jval = JNull | JStr string | JNum 'n

text \<open>
  Modelled from the spec: the full record as "an ordered mapping from field name to
  present-or-absent value", the fields in the order of the class.
\<close>

definition item_fields :: "'n Item \<Rightarrow> (string \<times> 'n jval) list" where
  "item_fields r =
     [(''name'', JStr (name r)),
      (''description'', (case description r of None \<Rightarrow> JNull | Some d \<Rightarrow> JStr d)),
      (''price'', JNum (price r)),
      (''tax'', (case tax r of None \<Rightarrow> JNull | Some t \<Rightarrow> JNum t)),
      (''total_price'', (case total_price r of None \<Rightarrow> JNull | Some t \<Rightarrow> JNum t))]"

text \<open>
  Modelled from the spec: the field-selection policy of list_projected,
  \<open>fields_to_keep | fields_to_drop\<close>.
\<close>

datatype field_selection = Keep "string set" | Drop "string set"

text \<open>
  Modelled from the spec: "when given an inclusion set, only listed fields are retained in
  each output record; when given an exclusion set, listed fields are removed from each
  output record".
\<close>

fun selected :: "field_selection \<Rightarrow> string \<Rightarrow> bool" where
  "selected (Keep ks) k = (k \<in> ks)"
| "selected (Drop ds) k = (k \<notin> ds)"

text \<open>
  Modelled from the spec: the projection of one record, "a pure function mapping a full
  record and a field-selection policy to a partial record representation"; "when
  drop_if_absent is enabled, any field whose value is unset is additionally removed
  regardless of the include/exclude set".
\<close>

definition project :: "field_selection \<Rightarrow> bool \<Rightarrow> 'n Item \<Rightarrow> (string \<times> 'n jval) list" where
  "project sel drop_if_absent r =
     filter (\<lambda>(k, v). selected sel k \<and> (if drop_if_absent then v \<noteq> JNull else True))
       (item_fields r)"

text \<open>
  Modelled from the spec: list_projected, the projection "applied independently to every
  record in the sequence"; the handler body is \<open>return items\<close>.
\<close>

definition list_projected ::
  "field_selection \<Rightarrow> bool \<Rightarrow> 'n module_state \<Rightarrow> (string \<times> 'n jval) list list \<times> 'n module_state" where
  "list_projected sel drop_if_absent s = (map (project sel drop_if_absent) (items s), s)"

text \<open>\<open>GET /namePrice/\<close> with \<open>response_model_include = {"__all__": {"price", "name"}}\<close>.\<close>

definition namePrice :: "'n module_state \<Rightarrow> (string \<times> 'n jval) list list \<times> 'n module_state" where
  "namePrice s = list_projected (Keep {''price'', ''name''}) False s"

text \<open>
  \<open>GET /minimalItem/\<close> with \<open>response_model_exclude = {"__all__": {"description"}}\<close> and
  \<open>response_model_exclude_none = True\<close>.
\<close>

definition itemsMinusDescription ::
  "'n module_state \<Rightarrow> (string \<times> 'n jval) list list \<times> 'n module_state" where
  "itemsMinusDescription s = list_projected (Drop {''description''}) True s"

subsection \<open>Sequences of requests\<close>

text \<open>The five item routes, and the state each request leaves behind.\<close>

datatype 'n request =
    PostItems "'n Item"
  | GetFullItem
  | GetNamePrice
  | GetMinimalItem
  | GetDbItems "int option" "int option"

fun serve :: "('n::plus) request \<Rightarrow> 'n module_state \<Rightarrow> 'n module_state" where
  "serve (PostItems c) s = snd (create_item c s)"
| "serve GetFullItem s = snd (read_items_fullItem s)"
| "serve GetNamePrice s = snd (namePrice s)"
| "serve GetMinimalItem s = snd (itemsMinusDescription s)"
| "serve (GetDbItems a b) s = snd (read_items_dbItems a b s)"

fun run :: "('n::plus) request list \<Rightarrow> 'n module_state \<Rightarrow> 'n module_state" where
  "run [] s = s"
| "run (r # rs) s = run rs (serve r s)"

text \<open>The candidates that a sequence of requests posts, in order.\<close>

fun posted :: "'n request list \<Rightarrow> 'n Item list" where
  "posted [] = []"
| "posted (PostItems c # rs) = c # posted rs"
| "posted (_ # rs) = posted rs"

text \<open>A sequence of appends alone.\<close>

fun append_all :: "('n::plus) Item list \<Rightarrow> 'n module_state \<Rightarrow> 'n module_state" where
  "append_all [] s = s"
| "append_all (c # cs) s = append_all cs (snd (create_item c s))"

text \<open>
  The record that \<open>create_item\<close> appends for a candidate: the candidate after the handler's
  \<open>if item.tax is not None\<close> (lemma \<open>create_item_stored\<close> below).
\<close>

definition stored_item :: "('n::plus) Item \<Rightarrow> 'n Item" where
  "stored_item c =
     (case tax c of Some t \<Rightarrow> c\<lparr>total_price := Some (price c + t)\<rparr> | None \<Rightarrow> c)"

section \<open>Properties\<close>

subsection \<open>Auxiliary facts\<close>

lemma create_item_stored:
  "create_item c s = (''successfully added a new item'', s\<lparr>items := items s @ [stored_item c]\<rparr>)"
  by (simp add: create_item_def stored_item_def)

lemma serve_fake_db: "fake_db (serve r s) = fake_db s"
  by (cases r)
     (simp_all add: create_item_stored read_items_fullItem_def namePrice_def
        itemsMinusDescription_def list_projected_def read_items_dbItems_def Let_def)

lemma serve_items:
  "items (serve r s) = items s @ map stored_item (posted [r])"
  by (cases r)
     (simp_all add: create_item_stored read_items_fullItem_def namePrice_def
        itemsMinusDescription_def list_projected_def read_items_dbItems_def Let_def)

lemma posted_Cons: "posted (r # rs) = posted [r] @ posted rs"
  by (cases r) simp_all

lemma run_fake_db: "fake_db (run rs s) = fake_db s"
  by (induction rs arbitrary: s) (simp_all add: serve_fake_db)

lemma run_items: "items (run rs s) = items s @ map stored_item (posted rs)"
proof (induction rs arbitrary: s)
  case Nil
  show ?case by simp
next
  case (Cons r rs)
  have "items (run (r # rs) s) = items (serve r s) @ map stored_item (posted rs)"
    using Cons.IH [of "serve r s"] by simp
  also have "\<dots> = items s @ map stored_item (posted [r] @ posted rs)"
    by (simp add: serve_items)
  finally show ?case
    using posted_Cons [of r rs] by simp
qed

lemma append_all_fake_db: "fake_db (append_all cs s) = fake_db s"
  by (induction cs arbitrary: s) (simp_all add: create_item_stored)

lemma append_all_items: "items (append_all cs s) = items s @ map stored_item cs"
  by (induction cs arbitrary: s) (simp_all add: create_item_stored)

lemma stored_item_fields:
  "name (stored_item c) = name c" "description (stored_item c) = description c"
  "price (stored_item c) = price c" "tax (stored_item c) = tax c"
  by (simp_all add: stored_item_def split: option.splits)

lemma stored_item_total:
  "total_price (stored_item c) =
     (case tax c of Some t \<Rightarrow> Some (price c + t) | None \<Rightarrow> total_price c)"
  by (simp add: stored_item_def split: option.splits)



lemma py_slice_sublist: "sublist (py_slice xs a b) xs"
  unfolding py_slice_def Let_def
  by (meson sublist_order.order_trans sublist_take sublist_drop)


lemma init_items: "items init_state = []"
  by (simp add: init_state_def)


lemma read_items_dbItems_eq:
  "read_items_dbItems a b s =
     (py_slice (fake_db s) (case a of None \<Rightarrow> 0 | Some x \<Rightarrow> x)
        ((case a of None \<Rightarrow> 0 | Some x \<Rightarrow> x) + (case b of None \<Rightarrow> 10 | Some y \<Rightarrow> y)), s)"
  by (simp add: read_items_dbItems_def Let_def)

lemma project_minimal:
  "project (Drop {''description''}) True r =
     (''name'', JStr (name r)) # (''price'', JNum (price r)) #
     (case tax r of None \<Rightarrow> [] | Some t \<Rightarrow> [(''tax'', JNum t)]) @
     (case total_price r of None \<Rightarrow> [] | Some v \<Rightarrow> [(''total_price'', JNum v)])"
  by (simp add: project_def item_fields_def split: option.splits)

lemma project_name_price:
  "project (Keep {''price'', ''name''}) False r = [(''name'', JStr (name r)), (''price'', JNum (price r))]"
  by (simp add: project_def item_fields_def)

subsection \<open>The registry invariant\<close>

text \<open>
  Claim C1, as the code has it. The registry starts empty and only \<open>create_item\<close> writes to
  it, so after any sequence of requests it holds one record for each posted candidate, in
  order. Every stored record whose tax is present has \<open>total_price = price + tax\<close>. A
  stored record whose tax is absent carries the \<open>total_price\<close> of its candidate: unset when
  the candidate (name, price) supplied none.
\<close>

theorem stored_items_invariant:
  "(\<forall>r \<in> set (items (run rs init_state)). \<forall>t. tax r = Some t \<longrightarrow> total_price r = Some (price r + t))
   \<and> length (items (run rs init_state)) = length (posted rs)
   \<and> (\<forall>i < length (posted rs). tax (posted rs ! i) = None \<longrightarrow>
         tax (items (run rs init_state) ! i) = None
         \<and> total_price (items (run rs init_state) ! i) = total_price (posted rs ! i))
   \<and> (tax c = None \<and> total_price c = None \<longrightarrow>
         total_price (last (items (snd (create_item c s)))) = None)"
proof -
  have reg: "items (run rs init_state) = map stored_item (posted rs)"
    by (simp add: run_items init_items)
  have a: "\<forall>r \<in> set (items (run rs init_state)). \<forall>t. tax r = Some t \<longrightarrow> total_price r = Some (price r + t)"
    unfolding reg by (auto simp: stored_item_fields stored_item_total)
  have b: "length (items (run rs init_state)) = length (posted rs)"
    unfolding reg by simp
  have c: "\<forall>i < length (posted rs). tax (posted rs ! i) = None \<longrightarrow>
         tax (items (run rs init_state) ! i) = None
         \<and> total_price (items (run rs init_state) ! i) = total_price (posted rs ! i)"
    unfolding reg by (simp add: stored_item_fields stored_item_total)
  have d: "tax c = None \<and> total_price c = None \<longrightarrow>
         total_price (last (items (snd (create_item c s)))) = None"
    by (simp add: create_item_stored stored_item_total)
  from a b c d show ?thesis by blast
qed

theorem stored_items_invariant_witness:
  "items (run [PostItems \<lparr>name = ''widget'', description = None, price = 999 / 100, tax = None, total_price = None\<rparr>,
               GetFullItem,
               PostItems \<lparr>name = ''gadget'', description = None, price = 5, tax = Some (1 / 2), total_price = None\<rparr>]
            (init_state :: real module_state))
     = [\<lparr>name = ''widget'', description = None, price = 999 / 100, tax = None, total_price = None\<rparr>,
        \<lparr>name = ''gadget'', description = None, price = 5, tax = Some (1 / 2), total_price = Some (11 / 2)\<rparr>]
   \<and> total_price (last (items (snd (create_item
        \<lparr>name = ''widget'', description = None, price = 999 / 100, tax = None, total_price = None\<rparr>
        (init_state :: real module_state))))) = None"
  using stored_items_invariant
    [of "[PostItems \<lparr>name = ''widget'', description = None, price = 999 / 100, tax = None, total_price = None\<rparr>,
          GetFullItem,
          PostItems \<lparr>name = ''gadget'', description = None, price = 5, tax = Some (1 / 2), total_price = None\<rparr>]"
        "\<lparr>name = ''widget'', description = None, price = 999 / 100, tax = None, total_price = None\<rparr>"
        "init_state :: real module_state"]
  by (simp add: create_item_def read_items_fullItem_def init_state_def)

text \<open>
  Claim C1 as stated fails: \<open>Item\<close> is also the type of the request body, so a candidate
  may carry a \<open>total_price\<close> of its own, and with tax absent the handler stores it as it
  is. The registry then holds a record with tax absent and \<open>total_price\<close> set.
\<close>

theorem supplied_total_price_counterexample:
  "map (\<lambda>r. (tax r, total_price r))
     (items (run [PostItems \<lparr>name = ''widget'', description = None, price = 1, tax = None, total_price = Some 5\<rparr>]
        (init_state :: real module_state)))
   = [(None, Some 5)]"
  by (simp add: create_item_def init_state_def)

subsection \<open>Appending a candidate with tax\<close>

text \<open>
  Claim C2. For every candidate whose tax is set, \<open>create_item\<close> sets \<open>total_price\<close> to
  \<open>price + tax\<close> on the candidate and appends that record to the end of the registry, leaving
  the records before it and the sample collection as they were; the last stored record's
  \<open>total_price\<close> is \<open>price + tax\<close>.
\<close>

theorem create_item_with_tax:
  "tax c = Some t \<Longrightarrow>
     snd (create_item c s) = s\<lparr>items := items s @ [c\<lparr>total_price := Some (price c + t)\<rparr>]\<rparr>
     \<and> total_price (last (items (snd (create_item c s)))) = Some (price c + t)"
  by (simp add: create_item_def)

theorem create_item_with_tax_witness:
  "tax \<lparr>name = ''gadget'', description = None, price = 5, tax = Some (1 / 2), total_price = None\<rparr> = Some (1 / 2 :: real)
   \<and> items (snd (create_item
        \<lparr>name = ''gadget'', description = None, price = 5, tax = Some (1 / 2), total_price = None\<rparr>
        (init_state :: real module_state)))
      = [\<lparr>name = ''gadget'', description = None, price = 5, tax = Some (1 / 2), total_price = Some (11 / 2)\<rparr>]"
  using create_item_with_tax
    [of "\<lparr>name = ''gadget'', description = None, price = 5, tax = Some (1 / 2), total_price = None\<rparr>"
        "1 / 2 :: real" "init_state :: real module_state"]
  by (simp add: init_state_def)

subsection \<open>The minimal view\<close>

text \<open>
  Claim C3. For every stored record whose tax is unset, the output record of
  \<open>GET /minimalItem/\<close> (exclusion set \<open>{"description"}\<close>, unset fields dropped) at the same
  position has neither a \<open>description\<close> key nor a \<open>tax\<close> key, and keeps the set fields that
  remain: \<open>name\<close>, \<open>price\<close>, and \<open>total_price\<close> when the record has one.
\<close>

theorem itemsMinusDescription_tax_unset:
  assumes "i < length (items s)" and "tax (items s ! i) = None"
  shows "length (fst (itemsMinusDescription s)) = length (items s)
    \<and> fst (itemsMinusDescription s) ! i =
        (''name'', JStr (name (items s ! i))) # (''price'', JNum (price (items s ! i))) #
        (case total_price (items s ! i) of None \<Rightarrow> [] | Some v \<Rightarrow> [(''total_price'', JNum v)])
    \<and> ''description'' \<notin> fst ` set (fst (itemsMinusDescription s) ! i)
    \<and> ''tax'' \<notin> fst ` set (fst (itemsMinusDescription s) ! i)"
proof -
  have out: "fst (itemsMinusDescription s) ! i = project (Drop {''description''}) True (items s ! i)"
    using assms(1) by (simp add: itemsMinusDescription_def list_projected_def)
  have len: "length (fst (itemsMinusDescription s)) = length (items s)"
    by (simp add: itemsMinusDescription_def list_projected_def)
  have shape: "project (Drop {''description''}) True (items s ! i) =
        (''name'', JStr (name (items s ! i))) # (''price'', JNum (price (items s ! i))) #
        (case total_price (items s ! i) of None \<Rightarrow> [] | Some v \<Rightarrow> [(''total_price'', JNum v)])"
    using assms(2) by (simp add: project_minimal)
  have keys: "''description'' \<notin> fst ` set (project (Drop {''description''}) True (items s ! i))"
    "''tax'' \<notin> fst ` set (project (Drop {''description''}) True (items s ! i))"
    unfolding shape by (cases "total_price (items s ! i)"; simp)+
  show ?thesis
    using len shape keys unfolding out by simp
qed

theorem itemsMinusDescription_tax_unset_witness:
  "(0::nat) < length (items (run [PostItems \<lparr>name = ''widget'', description = Some ''a tool'', price = 999 / 100, tax = None, total_price = None\<rparr>]
        (init_state :: real module_state)))
   \<and> tax (items (run [PostItems \<lparr>name = ''widget'', description = Some ''a tool'', price = 999 / 100, tax = None, total_price = None\<rparr>]
        (init_state :: real module_state)) ! 0) = None
   \<and> fst (itemsMinusDescription (run [PostItems \<lparr>name = ''widget'', description = Some ''a tool'', price = 999 / 100, tax = None, total_price = None\<rparr>]
        (init_state :: real module_state))) ! 0
      = [(''name'', JStr ''widget''), (''price'', JNum (999 / 100))]"
  using itemsMinusDescription_tax_unset
    [of 0 "run [PostItems \<lparr>name = ''widget'', description = Some ''a tool'', price = 999 / 100, tax = None, total_price = None\<rparr>]
        (init_state :: real module_state)"]
  by (simp add: create_item_def init_state_def)

subsection \<open>The name and price view\<close>

text \<open>
  Claim C4. For every stored record, the output record of \<open>GET /namePrice/\<close> (inclusion set
  \<open>{"price", "name"}\<close>) holds the \<open>name\<close> and the \<open>price\<close> of the record and nothing else,
  whatever the record's description, tax and total price are.
\<close>

theorem namePrice_only_name_price:
  "fst (namePrice s) = map (\<lambda>r. [(''name'', JStr (name r)), (''price'', JNum (price r))]) (items s)"
  by (simp add: namePrice_def list_projected_def project_name_price)

theorem namePrice_only_name_price_witness:
  "fst (namePrice (run [PostItems \<lparr>name = ''widget'', description = Some ''a tool'', price = 999 / 100, tax = Some 1, total_price = None\<rparr>]
        (init_state :: real module_state)))
   = [[(''name'', JStr ''widget''), (''price'', JNum (999 / 100))]]"
  using namePrice_only_name_price
    [of "run [PostItems \<lparr>name = ''widget'', description = Some ''a tool'', price = 999 / 100, tax = Some 1, total_price = None\<rparr>]
        (init_state :: real module_state)"]
  by (simp add: create_item_def init_state_def)

subsection \<open>The window on the sample collection\<close>




subsection \<open>Listing the registry\<close>

text \<open>
  Claim C6. \<open>GET /fullItem/\<close> returns the registry as it is stored and leaves the state
  unchanged. After appending \<open>a\<close> and then \<open>b\<close> it returns the earlier records, then the
  record stored for \<open>a\<close>, then the record stored for \<open>b\<close>; the stored record has the name,
  description, price and tax of its candidate. After any sequence of requests on the
  freshly loaded module it returns the records of the posted candidates in posting order.
\<close>

theorem read_items_fullItem_order:
  "read_items_fullItem s = (items s, s)
   \<and> fst (read_items_fullItem (snd (create_item b (snd (create_item a s)))))
       = items s @ [stored_item a, stored_item b]
   \<and> name (stored_item a) = name a \<and> description (stored_item a) = description a
   \<and> price (stored_item a) = price a \<and> tax (stored_item a) = tax a
   \<and> fst (read_items_fullItem (run rs init_state)) = map stored_item (posted rs)"
  by (simp add: read_items_fullItem_def create_item_stored run_items init_items stored_item_fields)

subsection \<open>The sample collection is apart from the registry\<close>

text \<open>
  Claim C7. \<open>GET /dbItems/\<close> reads \<open>fake_db\<close>, which no handler writes: for every sequence
  of appends, and for every sequence of requests of any kind, and every \<open>(start, limit)\<close>, it
  returns after them what it returned before. What it returns is a contiguous part of the
  three sample dictionaries, which are of another type than the registry's records.
\<close>

theorem read_items_dbItems_frame:
  "fst (read_items_dbItems a b (append_all cs s)) = fst (read_items_dbItems a b s)
   \<and> fst (read_items_dbItems a b (run rs s)) = fst (read_items_dbItems a b s)
   \<and> sublist (fst (read_items_dbItems a b (append_all cs (init_state :: ('n::plus) module_state))))
         (fake_db (init_state :: 'n module_state))"
  by (simp add: read_items_dbItems_eq append_all_fake_db run_fake_db py_slice_sublist)

subsection \<open>Projection leaves the registry alone\<close>

text \<open>
  Claim C8. For every state and every field-selection policy (inclusion or exclusion set,
  unset fields dropped or not), the state after the projection is the state before it, the
  registry and each of its records included; so it is for the two projecting routes.
\<close>

theorem list_projected_frame:
  "snd (list_projected sel d s) = s \<and> snd (namePrice s) = s \<and> snd (itemsMinusDescription s) = s
   \<and> items (snd (list_projected sel d s)) = items s"
  by (simp add: list_projected_def namePrice_def itemsMinusDescription_def)

subsection \<open>A total price supplied by the client\<close>

text \<open>
  Claim C10. The request body of \<open>create_item\<close> is an \<open>Item\<close>, which has a \<open>total_price\<close>
  field. For a candidate with tax unset and \<open>total_price\<close> supplied, the stored record is the
  candidate itself, its \<open>total_price\<close> as supplied. For a candidate with tax set, the stored
  \<open>total_price\<close> is \<open>price + tax\<close>, whatever \<open>total_price\<close> was supplied.
\<close>

theorem create_item_supplied_total_price:
  "(tax c = None \<longrightarrow> total_price c = Some v \<longrightarrow>
      items (snd (create_item c s)) = items s @ [c]
      \<and> total_price (last (items (snd (create_item c s)))) = Some v)
   \<and> (tax c = Some t \<longrightarrow> total_price c = Some v \<longrightarrow>
      total_price (last (items (snd (create_item c s)))) = Some (price c + t))"
  by (simp add: create_item_def)

theorem create_item_supplied_total_price_witness:
  "total_price (last (items (snd (create_item
      \<lparr>name = ''widget'', description = None, price = 2, tax = None, total_price = Some 7\<rparr>
      (init_state :: real module_state)))))
     = Some 7
   \<and> total_price (last (items (snd (create_item
      \<lparr>name = ''gadget'', description = None, price = 5, tax = Some (1 / 2), total_price = Some 7\<rparr>
      (init_state :: real module_state)))))
     = Some (11 / 2)"
  using create_item_supplied_total_price
    [of "\<lparr>name = ''widget'', description = None, price = 2, tax = None, total_price = Some 7\<rparr>"
        7 "init_state :: real module_state" "1 / 2"]
    create_item_supplied_total_price
    [of "\<lparr>name = ''gadget'', description = None, price = 5, tax = Some (1 / 2), total_price = Some 7\<rparr>"
        7 "init_state :: real module_state" "1 / 2"]
  by (simp add: init_state_def)

end
